theory Spec2Isabelle
  imports Complex_Main "HOL-Library.Signed_Division"
begin

section \<open>Data model of main.go\<close>

text \<open>
  The exporter polls the GitLab API for the newest pipeline of every configured
  (project, ref) pair and writes four Prometheus metric families. The model below follows
  \<^verbatim>\<open>src/main.go\<close>: the structs are records, the package-level metric vectors are
  the fields of one explicit state record, the GitLab client is a record of the answers it
  gives, and every \<^verbatim>\<open>log.Fatalf\<close> and every nil dereference is a branch that
  returns \<open>Inl\<close>.
\<close>

text \<open>\<^verbatim>\<open>type project struct { Name string; Ref string }\<close>\<close>

record project =
  Name :: string
  Ref :: string


text \<open>
  Instants are nanoseconds since the Unix epoch; a \<^verbatim>\<open>time.Duration\<close> is a count
  of nanoseconds held in an \<^verbatim>\<open>int64\<close>.
\<close>

type_synonym time = int
type_synonym Duration = int

text \<open>
  The fields of the go-gitlab structs that main.go reads: \<^verbatim>\<open>gitlab.Project\<close>
  (\<^verbatim>\<open>ID\<close>, \<^verbatim>\<open>Name\<close>, \<^verbatim>\<open>PathWithNamespace\<close>), an element of the
  pipeline list (\<^verbatim>\<open>ID\<close>, \<^verbatim>\<open>Status\<close>) and \<^verbatim>\<open>gitlab.Pipeline\<close>
  (\<^verbatim>\<open>ID\<close>, \<^verbatim>\<open>Status\<close>, \<^verbatim>\<open>Duration\<close>, and the pointer
  \<^verbatim>\<open>CreatedAt\<close>, \<open>None\<close> when nil).
\<close>

record gl_project =
  gp_ID :: int
  gp_Name :: string
  gp_PathWithNamespace :: string

record pipeline_info =
  pi_ID :: int
  pi_Status :: string

record gl_pipeline =
  pl_ID :: int
  pl_Status :: string
  pl_Duration :: int
  pl_CreatedAt :: "time option"

text \<open>
  The GitLab client, as the four calls main.go makes of it. An API error is \<open>Inl\<close>
  of its message. \<^verbatim>\<open>GetPipeline\<close> returns a pointer and an error; main.go drops
  the error, so only the pointer is kept: \<open>None\<close> is the nil pointer that comes with
  an error.
\<close>

record client =
  GetProject :: "string \<Rightarrow> string + gl_project"
  ListProjectPipelines :: "int \<Rightarrow> string \<Rightarrow> string + pipeline_info list"
  GetPipeline :: "int \<Rightarrow> int \<Rightarrow> gl_pipeline option"
  ListProjects :: "string + gl_project list"

text \<open>
  The four metric vectors registered in main.go. A vector maps label values to the
  value of the series; a label combination that was never asked for has no series.
  Gauge values are rationals standing for the \<^verbatim>\<open>float64\<close> the code stores; the
  counter is only ever created and incremented, so it is a natural number.
\<close>

record metrics =
  timeSinceLastRun :: "(string \<times> string) \<rightharpoonup> rat"
  lastRunDuration :: "(string \<times> string) \<rightharpoonup> rat"
  runCount :: "(string \<times> string) \<rightharpoonup> nat"
  status :: "(string \<times> string \<times> string) \<rightharpoonup> rat"

definition metrics_init :: metrics where
  "metrics_init = \<lparr>timeSinceLastRun = Map.empty, lastRunDuration = Map.empty,
                    runCount = Map.empty, status = Map.empty\<rparr>"

text \<open>
  How a poll can end the process: \<^verbatim>\<open>log.Fatalf\<close> (the constructor is the format
  string, the arguments are the values logged) or the panic of a nil pointer dereference.
\<close>

datatype exit =
    Fatal_project string string
  | Fatal_pipelines string string
  | Fatal_projects string
  | Panic_nil_dereference

section \<open>Library operations\<close>

subsection \<open>Prometheus vectors\<close>

text \<open>
  \<^verbatim>\<open>WithLabelValues\<close> returns the series of the given label values and creates it,
  with value 0, when it does not exist yet. \<^verbatim>\<open>Set\<close> and \<^verbatim>\<open>Inc\<close> act on the
  series so obtained.
\<close>

definition WithLabelValues :: "('k \<rightharpoonup> 'v::zero) \<Rightarrow> 'k \<Rightarrow> ('k \<rightharpoonup> 'v)" where
  "WithLabelValues vec k = (case vec k of None \<Rightarrow> vec(k \<mapsto> 0) | Some v \<Rightarrow> vec)"

definition gauge_Set :: "('k \<rightharpoonup> rat) \<Rightarrow> 'k \<Rightarrow> rat \<Rightarrow> ('k \<rightharpoonup> rat)" where
  "gauge_Set vec k v = (WithLabelValues vec k)(k \<mapsto> v)"

definition counter_Inc :: "('k \<rightharpoonup> nat) \<Rightarrow> 'k \<Rightarrow> ('k \<rightharpoonup> nat)" where
  "counter_Inc vec k =
     (case WithLabelValues vec k k of
        None \<Rightarrow> WithLabelValues vec k
      | Some c \<Rightarrow> (WithLabelValues vec k)(k \<mapsto> c + 1))"

subsection \<open>Go's time package\<close>

definition Second :: Duration where
  "Second = 1000000000"

definition minDuration :: Duration where
  "minDuration = - (2 ^ 63)"

definition maxDuration :: Duration where
  "maxDuration = 2 ^ 63 - 1"

text \<open>Two's complement wrap-around of \<^verbatim>\<open>int64\<close> arithmetic.\<close>

definition wrap64 :: "int \<Rightarrow> int" where
  "wrap64 x = (x + 2 ^ 63) mod 2 ^ 64 - 2 ^ 63"

text \<open>
  \<^verbatim>\<open>time.Since(t)\<close> is \<^verbatim>\<open>time.Now().Sub(t)\<close>, and \<^verbatim>\<open>Sub\<close> saturates at
  the smallest and largest \<^verbatim>\<open>Duration\<close>.
\<close>

definition time_Since :: "time \<Rightarrow> time \<Rightarrow> Duration" where
  "time_Since now t =
     (let d = now - t
      in if d < minDuration then minDuration
         else if maxDuration < d then maxDuration
         else d)"

text \<open>
  \<^verbatim>\<open>Duration.Round(m)\<close>: to the nearest multiple of \<open>m\<close>, halves away from zero,
  and the extreme value when the rounded one does not fit. Go's \<^verbatim>\<open>%\<close> truncates,
  which is \<open>smod\<close>.
\<close>

definition lessThanHalf :: "Duration \<Rightarrow> Duration \<Rightarrow> bool" where
  "lessThanHalf x y = ((x + x) mod 2 ^ 64 < y mod 2 ^ 64)"

definition Duration_Round :: "Duration \<Rightarrow> Duration \<Rightarrow> Duration" where
  "Duration_Round d m =
     (if m \<le> 0 then d
      else let r = d smod m
           in if d < 0 then
                (let r = - r
                 in if lessThanHalf r m then wrap64 (d + r)
                    else let d1 = wrap64 (d - m + r)
                         in if d1 < d then d1 else minDuration)
              else if lessThanHalf r m then wrap64 (d - r)
              else let d1 = wrap64 (d + m - r)
                   in if d1 > d then d1 else maxDuration)"

text \<open>
  \<^verbatim>\<open>Duration.Seconds()\<close>: whole seconds plus the remaining nanoseconds over
  \<open>10\<^sup>9\<close>, here in exact arithmetic.
\<close>

definition Duration_Seconds :: "Duration \<Rightarrow> rat" where
  "Duration_Seconds d = of_int (d sdiv Second) + of_int (d smod Second) / 1000000000"

section \<open>The polling task\<close>

text \<open>
  \<^verbatim>\<open>getProject\<close>: the project of the API, or the fatal log line naming the
  configured project and the error.
\<close>

definition getProject :: "project \<Rightarrow> client \<Rightarrow> exit + gl_project" where
  "getProject p gc =
     (case GetProject gc (Name p) of
        Inl err \<Rightarrow> Inl (Fatal_project (Name p) err)
      | Inr gp \<Rightarrow> Inr gp)"

text \<open>The status values the loop of \<^verbatim>\<open>taskOnce\<close> ranges over.\<close>

definition recognized :: "string list" where
  "recognized = [''success'', ''failed'', ''running'']"

definition set_status :: "project \<Rightarrow> string \<Rightarrow> metrics \<Rightarrow> metrics" where
  "set_status p st m =
     fold (\<lambda>s m. if s = st
                  then m\<lparr>status := gauge_Set (status m) (Name p, Ref p, s) 1\<rparr>
                  else m\<lparr>status := gauge_Set (status m) (Name p, Ref p, s) 0\<rparr>)
          recognized m"

text \<open>
  The last statement of \<^verbatim>\<open>taskOnce\<close>: both \<^verbatim>\<open>lastPipeline\<close> and its
  \<^verbatim>\<open>CreatedAt\<close> are dereferenced without a check.
\<close>

definition set_timeSinceLastRun ::
  "project \<Rightarrow> gl_pipeline option \<Rightarrow> time \<Rightarrow> metrics \<Rightarrow> exit + metrics" where
  "set_timeSinceLastRun p lastPipeline now m =
     (case lastPipeline of
        None \<Rightarrow> Inl Panic_nil_dereference
      | Some lp \<Rightarrow>
          (case pl_CreatedAt lp of
             None \<Rightarrow> Inl Panic_nil_dereference
           | Some t \<Rightarrow>
               Inr (m\<lparr>timeSinceLastRun :=
                        gauge_Set (timeSinceLastRun m) (Name p, Ref p)
                          (Duration_Seconds (Duration_Round (time_Since now t) Second))\<rparr>)))"

text \<open>
  The test of the \<^verbatim>\<open>if\<close> that guards the refresh:
  \<^verbatim>\<open>lastPipeline == nil || lastPipeline.ID != pipelines[0].ID || lastPipeline.Status != pipelines[0].Status\<close>.
\<close>

definition changed :: "gl_pipeline option \<Rightarrow> pipeline_info \<Rightarrow> bool" where
  "changed lastPipeline p0 =
     (case lastPipeline of
        None \<Rightarrow> True
      | Some lp \<Rightarrow> pl_ID lp \<noteq> pi_ID p0 \<or> pl_Status lp \<noteq> pi_Status p0)"

text \<open>
  The part of \<^verbatim>\<open>taskOnce\<close> after the empty-list return, with the value of the variable
  \<^verbatim>\<open>lastPipeline\<close> as an argument.
\<close>

definition refresh ::
  "project \<Rightarrow> client \<Rightarrow> gl_project \<Rightarrow> pipeline_info \<Rightarrow> gl_pipeline option \<Rightarrow> time
     \<Rightarrow> metrics \<Rightarrow> exit + metrics" where
  "refresh p gc gp p0 lastPipeline now m =
     (if changed lastPipeline p0 then
        (let m1 = (if lastPipeline \<noteq> None
                   then m\<lparr>runCount := counter_Inc (runCount m) (Name p, Ref p)\<rparr>
                   else m)
         in case GetPipeline gc (gp_ID gp) (pi_ID p0) of
              None \<Rightarrow> Inl Panic_nil_dereference
            | Some lp \<Rightarrow>
                (let m2 = m1\<lparr>lastRunDuration :=
                               gauge_Set (lastRunDuration m1) (Name p, Ref p)
                                 (of_int (pl_Duration lp))\<rparr>;
                     m3 = set_status p (pl_Status lp) m2
                 in set_timeSinceLastRun p (Some lp) now m3))
      else set_timeSinceLastRun p lastPipeline now m)"

text \<open>
  \<^verbatim>\<open>taskOnce\<close>. The variable \<^verbatim>\<open>lastPipeline\<close> is declared inside the function,
  so it is nil whenever the function starts. \<open>now\<close> is the clock when the last statement
  runs. The \<^verbatim>\<open>config\<close> argument is not used by the function and is left out, and so
  is the informational \<^verbatim>\<open>log.Printf\<close> line.
\<close>

definition taskOnce :: "project \<Rightarrow> client \<Rightarrow> time \<Rightarrow> metrics \<Rightarrow> exit + metrics" where
  "taskOnce p gc now m =
     (case getProject p gc of
        Inl e \<Rightarrow> Inl e
      | Inr gp \<Rightarrow>
          (let lastPipeline = None;
               m0 = m\<lparr>runCount := WithLabelValues (runCount m) (Name p, Ref p)\<rparr>
           in case ListProjectPipelines gc (gp_ID gp) (Ref p) of
                Inl err \<Rightarrow> Inl (Fatal_pipelines (gp_Name gp) err)
              | Inr pipelines \<Rightarrow>
                  (case pipelines of
                     [] \<Rightarrow> Inr m0
                   | p0 # rest \<Rightarrow> refresh p gc gp p0 lastPipeline now m0)))"

section \<open>Sequences of polls and the scheduler\<close>

text \<open>
  The process state that outlives a call of \<^verbatim>\<open>taskOnce\<close> is the metric registry
  alone. A run of the exporter is a sequence of polls, each with the answers the API gives
  at that moment and the clock it reads; a fatal log line or a panic ends the process, so
  no later poll happens. The goroutines of main.go are taken one after the other, each
  running to its end.
\<close>

type_synonym poll = "project \<times> client \<times> time"

fun run_polls :: "metrics \<Rightarrow> poll list \<Rightarrow> exit + metrics" where
  "run_polls m [] = Inr m"
| "run_polls m ((p, gc, now) # evs) =
     (case taskOnce p gc now m of
        Inl e \<Rightarrow> Inl e
      | Inr m' \<Rightarrow> run_polls m' evs)"

text \<open>
  The arguments of the \<^verbatim>\<open>go taskOnce(...)\<close> statements that the body of the
  \<^verbatim>\<open>range\<close> loop of \<^verbatim>\<open>task\<close> runs for one configured entry: for the name
  \<^verbatim>\<open>*\<close> one per project of \<^verbatim>\<open>ListProjects\<close>, named by its
  \<^verbatim>\<open>PathWithNamespace\<close> and with the entry's ref; otherwise the entry itself.
\<close>

definition entry_targets :: "client \<Rightarrow> project \<Rightarrow> exit + project list" where
  "entry_targets gc p =
     (if Name p = ''*'' then
        (case ListProjects gc of
           Inl err \<Rightarrow> Inl (Fatal_projects err)
         | Inr projects \<Rightarrow>
             Inr (map (\<lambda>pwild. \<lparr>Name = gp_PathWithNamespace pwild, Ref = Ref p\<rparr>) projects))
      else Inr [p])"

text \<open>One pass of \<^verbatim>\<open>for _, p := range config.Projects\<close>.\<close>

fun task_range :: "project list \<Rightarrow> client \<Rightarrow> time \<Rightarrow> metrics \<Rightarrow> exit + metrics" where
  "task_range [] gc now m = Inr m"
| "task_range (p # ps) gc now m =
     (case entry_targets gc p of
        Inl e \<Rightarrow> Inl e
      | Inr ts \<Rightarrow>
          (case run_polls m (map (\<lambda>t. (t, gc, now)) ts) of
             Inl e \<Rightarrow> Inl e
           | Inr m' \<Rightarrow> task_range ps gc now m'))"


section \<open>What a poll reads\<close>

text \<open>
  The newest entry of the pipeline list that a poll of \<open>p\<close> sees, and the pipeline
  detail it then fetches: the same client calls as in \<^verbatim>\<open>taskOnce\<close>, without the
  metric writes.
\<close>

definition newest :: "project \<Rightarrow> client \<Rightarrow> pipeline_info option" where
  "newest p gc =
     (case GetProject gc (Name p) of
        Inl err \<Rightarrow> None
      | Inr gp \<Rightarrow>
          (case ListProjectPipelines gc (gp_ID gp) (Ref p) of
             Inl err \<Rightarrow> None
           | Inr pipelines \<Rightarrow> (case pipelines of [] \<Rightarrow> None | p0 # rest \<Rightarrow> Some p0)))"

definition detail :: "project \<Rightarrow> client \<Rightarrow> gl_pipeline option" where
  "detail p gc =
     (case GetProject gc (Name p) of
        Inl err \<Rightarrow> None
      | Inr gp \<Rightarrow>
          (case newest p gc of
             None \<Rightarrow> None
           | Some p0 \<Rightarrow> GetPipeline gc (gp_ID gp) (pi_ID p0)))"

text \<open>
  The detail and the clock of the most recent poll of the key \<open>k\<close> that saw a
  pipeline, in a sequence of polls.
\<close>

fun last_seen :: "poll list \<Rightarrow> string \<times> string \<Rightarrow> (gl_pipeline \<times> time) option" where
  "last_seen [] k = None"
| "last_seen ((p, gc, now) # evs) k =
     (case last_seen evs k of
        Some x \<Rightarrow> Some x
      | None \<Rightarrow>
          (if (Name p, Ref p) = k
           then (case detail p gc of None \<Rightarrow> None | Some lp \<Rightarrow> Some (lp, now))
           else None))"

definition polled :: "poll list \<Rightarrow> string \<times> string \<Rightarrow> bool" where
  "polled evs k = (\<exists>e \<in> set evs. (Name (fst e), Ref (fst e)) = k)"

section \<open>Example inputs\<close>

text \<open>
  The target \<^verbatim>\<open>(proj-a, main)\<close> of the scenarios, the project the API knows under
  that name, and a second project owned by the same credential.
\<close>

definition proj_a :: project where
  "proj_a = \<lparr>Name = ''proj-a'', Ref = ''main''\<rparr>"

definition gp_a :: gl_project where
  "gp_a = \<lparr>gp_ID = 7, gp_Name = ''Project A'', gp_PathWithNamespace = ''proj-a''\<rparr>"

definition gp_b :: gl_project where
  "gp_b = \<lparr>gp_ID = 8, gp_Name = ''Project B'', gp_PathWithNamespace = ''group/proj-b''\<rparr>"

text \<open>
  A GitLab that knows both projects, answers the pipeline list of project 7 on
  \<^verbatim>\<open>main\<close> with \<open>pipelines\<close> and the detail of pipeline 101 with \<open>dl\<close>.
\<close>

definition gitlab_with :: "pipeline_info list \<Rightarrow> gl_pipeline option \<Rightarrow> client" where
  "gitlab_with pipelines dl =
     \<lparr>GetProject = (\<lambda>name. if name = ''proj-a'' then Inr gp_a
                             else if name = ''group/proj-b'' then Inr gp_b
                             else Inl ''404 Project Not Found''),
      ListProjectPipelines = (\<lambda>pid ref. if pid = 7 \<and> ref = ''main'' then Inr pipelines else Inr []),
      GetPipeline = (\<lambda>pid i. if pid = 7 \<and> i = 101 then dl else None),
      ListProjects = Inr [gp_a, gp_b]\<rparr>"

text \<open>A GitLab whose pipeline listing fails.\<close>

definition gitlab_down :: client where
  "gitlab_down =
     \<lparr>GetProject = (\<lambda>name. if name = ''proj-a'' then Inr gp_a else Inl ''404 Project Not Found''),
      ListProjectPipelines = (\<lambda>pid ref. Inl ''500 Internal Server Error''),
      GetPipeline = (\<lambda>pid i. None),
      ListProjects = Inl ''500 Internal Server Error''\<rparr>"

text \<open>The creation time of pipeline 101 and three later instants.\<close>

definition T0 :: time where
  "T0 = 1700000000000000000"

definition T1 :: time where
  "T1 = 1700000000400000000"

definition T2 :: time where
  "T2 = 1700000060600000000"

definition T3 :: time where
  "T3 = 1700000120500000000"

definition pipeline101 :: "string \<Rightarrow> int \<Rightarrow> gl_pipeline" where
  "pipeline101 st dur = \<lparr>pl_ID = 101, pl_Status = st, pl_Duration = dur, pl_CreatedAt = Some T0\<rparr>"

definition seen101 :: "string \<Rightarrow> int \<Rightarrow> client" where
  "seen101 st dur = gitlab_with [\<lparr>pi_ID = 101, pi_Status = st\<rparr>] (Some (pipeline101 st dur))"

section \<open>Facts about the library operations\<close>









section \<open>Facts about one poll and about sequences of polls\<close>


lemma gauge_Set_eq: "gauge_Set vec k v = vec(k \<mapsto> v)"
  by (simp add: gauge_Set_def WithLabelValues_def split: option.splits)

lemma WithLabelValues_apply:
  "WithLabelValues vec k k' = (if k' = k then Some (case vec k of None \<Rightarrow> 0 | Some c \<Rightarrow> c) else vec k')"
  by (simp add: WithLabelValues_def split: option.splits)

lemma set_status_fields:
  "timeSinceLastRun (set_status p st m) = timeSinceLastRun m"
  "lastRunDuration (set_status p st m) = lastRunDuration m"
  "runCount (set_status p st m) = runCount m"
  by (simp_all add: set_status_def recognized_def)

lemma set_status_status:
  "status (set_status p st m) (n, r, s) =
     (if (n, r) = (Name p, Ref p) \<and> s \<in> set recognized
      then Some (if s = st then 1 else 0) else status m (n, r, s))"
  by (auto simp: set_status_def recognized_def gauge_Set_eq)

lemma taskOnce_Inr_empty:
  assumes "taskOnce p gc now m = Inr m'" "newest p gc = None"
  shows "m' = m\<lparr>runCount := WithLabelValues (runCount m) (Name p, Ref p)\<rparr>"
  using assms
  by (auto simp: taskOnce_def getProject_def newest_def refresh_def changed_def
      split: sum.splits list.splits option.splits)

lemma taskOnce_Inr_seen:
  assumes "taskOnce p gc now m = Inr m'" "newest p gc = Some p0"
  shows "\<exists>lp t. detail p gc = Some lp \<and> pl_CreatedAt lp = Some t \<and>
     m' = (set_status p (pl_Status lp)
            (m\<lparr>runCount := WithLabelValues (runCount m) (Name p, Ref p),
               lastRunDuration := (lastRunDuration m)((Name p, Ref p) \<mapsto> of_int (pl_Duration lp))\<rparr>))
          \<lparr>timeSinceLastRun := (timeSinceLastRun m)((Name p, Ref p) \<mapsto>
              Duration_Seconds (Duration_Round (time_Since now t) Second))\<rparr>"
  using assms
  by (auto simp: taskOnce_def getProject_def newest_def detail_def refresh_def changed_def
      set_timeSinceLastRun_def gauge_Set_eq set_status_fields Let_def
      split: sum.splits list.splits option.splits)


lemma newest_None_detail: "newest p gc = None \<Longrightarrow> detail p gc = None"
  by (simp add: detail_def split: sum.splits)

lemma taskOnce_runCount:
  assumes "taskOnce p gc now m = Inr m'"
  shows "runCount m' k =
     (if k = (Name p, Ref p) then Some (case runCount m k of None \<Rightarrow> 0 | Some c \<Rightarrow> c)
      else runCount m k)"
proof (cases "newest p gc")
  case None
  from taskOnce_Inr_empty [OF assms None] show ?thesis
    by (simp add: WithLabelValues_apply)
next
  case (Some p0)
  from taskOnce_Inr_seen [OF assms Some] show ?thesis
    by (auto simp: WithLabelValues_apply set_status_fields)
qed

lemma taskOnce_lastRunDuration:
  assumes "taskOnce p gc now m = Inr m'"
  shows "lastRunDuration m' k =
     (if k = (Name p, Ref p)
      then (case detail p gc of None \<Rightarrow> lastRunDuration m k
            | Some lp \<Rightarrow> Some (of_int (pl_Duration lp)))
      else lastRunDuration m k)"
proof (cases "newest p gc")
  case None
  from taskOnce_Inr_empty [OF assms None] newest_None_detail [OF None] show ?thesis
    by simp
next
  case (Some p0)
  from taskOnce_Inr_seen [OF assms Some] show ?thesis
    by (auto simp: set_status_fields)
qed

lemma taskOnce_status:
  assumes "taskOnce p gc now m = Inr m'"
  shows "status m' (n, r, s) =
     (if (n, r) = (Name p, Ref p) \<and> s \<in> set recognized
      then (case detail p gc of None \<Rightarrow> status m (n, r, s)
            | Some lp \<Rightarrow> Some (if s = pl_Status lp then 1 else 0))
      else status m (n, r, s))"
proof (cases "newest p gc")
  case None
  from taskOnce_Inr_empty [OF assms None] newest_None_detail [OF None] show ?thesis
    by simp
next
  case (Some p0)
  from taskOnce_Inr_seen [OF assms Some] obtain lp t where
    d: "detail p gc = Some lp" and
    m': "m' = (set_status p (pl_Status lp)
            (m\<lparr>runCount := WithLabelValues (runCount m) (Name p, Ref p),
               lastRunDuration := (lastRunDuration m)((Name p, Ref p) \<mapsto> of_int (pl_Duration lp))\<rparr>))
          \<lparr>timeSinceLastRun := (timeSinceLastRun m)((Name p, Ref p) \<mapsto>
              Duration_Seconds (Duration_Round (time_Since now t) Second))\<rparr>"
    by blast
  show ?thesis
    unfolding m' by (simp add: set_status_status d)
qed

lemma taskOnce_timeSinceLastRun:
  assumes "taskOnce p gc now m = Inr m'"
  shows "(detail p gc = None \<and> timeSinceLastRun m' = timeSinceLastRun m) \<or>
         (\<exists>lp t. detail p gc = Some lp \<and> pl_CreatedAt lp = Some t \<and>
            timeSinceLastRun m' = (timeSinceLastRun m)((Name p, Ref p) \<mapsto>
              Duration_Seconds (Duration_Round (time_Since now t) Second)))"
proof (cases "newest p gc")
  case None
  from taskOnce_Inr_empty [OF assms None] newest_None_detail [OF None] show ?thesis
    by simp
next
  case (Some p0)
  from taskOnce_Inr_seen [OF assms Some] show ?thesis
    by (auto simp: set_status_fields)
qed

lemma run_polls_Cons_Inr:
  "run_polls m ((p, gc, now) # evs) = Inr m' \<longleftrightarrow>
     (\<exists>m1. taskOnce p gc now m = Inr m1 \<and> run_polls m1 evs = Inr m')"
  by (simp split: sum.splits)

lemma run_polls_runCount:
  "run_polls m evs = Inr m' \<Longrightarrow>
   runCount m' k =
     (if polled evs k then Some (case runCount m k of None \<Rightarrow> 0 | Some c \<Rightarrow> c)
      else runCount m k)"
proof (induction evs arbitrary: m)
  case Nil
  then show ?case by (simp add: polled_def)
next
  case (Cons e evs)
  obtain p gc now where e: "e = (p, gc, now)" by (cases e)
  from Cons.prems obtain m1 where
    t: "taskOnce p gc now m = Inr m1" and r: "run_polls m1 evs = Inr m'"
    unfolding e run_polls_Cons_Inr by blast
  show ?case
    using Cons.IH [OF r] taskOnce_runCount [OF t, of k]
    by (auto simp: polled_def e split: if_splits)
qed

lemma run_polls_lastRunDuration:
  "run_polls m evs = Inr m' \<Longrightarrow>
   lastRunDuration m' k =
     (case last_seen evs k of None \<Rightarrow> lastRunDuration m k
      | Some x \<Rightarrow> Some (of_int (pl_Duration (fst x))))"
proof (induction evs arbitrary: m)
  case Nil
  then show ?case by simp
next
  case (Cons e evs)
  obtain p gc now where e: "e = (p, gc, now)" by (cases e)
  from Cons.prems obtain m1 where
    t: "taskOnce p gc now m = Inr m1" and r: "run_polls m1 evs = Inr m'"
    unfolding e run_polls_Cons_Inr by blast
  show ?case
    using Cons.IH [OF r] taskOnce_lastRunDuration [OF t, of k]
    by (auto simp: e split: option.splits if_splits)
qed

lemma run_polls_status:
  "run_polls m evs = Inr m' \<Longrightarrow>
   status m' (n, r, s) =
     (case last_seen evs (n, r) of None \<Rightarrow> status m (n, r, s)
      | Some x \<Rightarrow> if s \<in> set recognized
                  then Some (if s = pl_Status (fst x) then 1 else 0)
                  else status m (n, r, s))"
proof (induction evs arbitrary: m)
  case Nil
  then show ?case by simp
next
  case (Cons e evs)
  obtain p gc now where e: "e = (p, gc, now)" by (cases e)
  from Cons.prems obtain m1 where
    t: "taskOnce p gc now m = Inr m1" and r: "run_polls m1 evs = Inr m'"
    unfolding e run_polls_Cons_Inr by blast
  show ?case
    using Cons.IH [OF r] taskOnce_status [OF t, of n r s]
    by (auto simp: e split: option.splits if_splits)
qed

lemma run_polls_timeSinceLastRun:
  "run_polls m evs = Inr m' \<Longrightarrow>
   (case last_seen evs k of None \<Rightarrow> timeSinceLastRun m' k = timeSinceLastRun m k
    | Some x \<Rightarrow> \<exists>t. pl_CreatedAt (fst x) = Some t \<and>
        timeSinceLastRun m' k =
          Some (Duration_Seconds (Duration_Round (time_Since (snd x) t) Second)))"
proof (induction evs arbitrary: m)
  case Nil
  then show ?case by simp
next
  case (Cons e evs)
  obtain p gc now where e: "e = (p, gc, now)" by (cases e)
  from Cons.prems obtain m1 where
    t: "taskOnce p gc now m = Inr m1" and r: "run_polls m1 evs = Inr m'"
    unfolding e run_polls_Cons_Inr by blast
  show ?case
    using Cons.IH [OF r] taskOnce_timeSinceLastRun [OF t]
    by (auto simp: e split: option.splits if_splits)
qed

lemmas model_defs =
  taskOnce_def getProject_def refresh_def changed_def set_timeSinceLastRun_def set_status_def
  recognized_def gauge_Set_eq WithLabelValues_def counter_Inc_def metrics_init_def
  time_Since_def Duration_Round_def Duration_Seconds_def lessThanHalf_def wrap64_def
  Second_def minDuration_def maxDuration_def signed_divide_int_def signed_modulo_int_def

lemmas example_defs =
  proj_a_def gp_a_def gp_b_def gitlab_with_def gitlab_down_def T0_def T1_def T2_def T3_def
  pipeline101_def seen101_def

lemma taskOnce_returns:
  assumes "detail p gc = Some lp" "pl_CreatedAt lp = Some t"
  shows "\<exists>m'. taskOnce p gc now m = Inr m'"
  using assms
  by (auto simp: taskOnce_def getProject_def newest_def detail_def refresh_def changed_def
      set_timeSinceLastRun_def Let_def split: sum.splits list.splits option.splits)

lemma never_seen_last_seen:
  "\<forall>e \<in> set evs. (Name (fst e), Ref (fst e)) = k \<longrightarrow> newest (fst e) (fst (snd e)) = None
   \<Longrightarrow> last_seen evs k = None"
  by (induction evs) (auto simp: newest_None_detail split: option.splits)



section \<open>The run counter\<close>

text \<open>
  C8. The first snapshot observed for a target never increments \<open>run_count\<close>, whatever
  the pipeline id and status: when no earlier poll of the sequence has seen a pipeline for
  the key, a poll that fetches a pipeline detail returns, and the counter of the key reads
  0 after it, as it did before if the series existed at all.
\<close>

theorem first_snapshot_no_increment:
  assumes "run_polls metrics_init evs = Inr m"
      and "last_seen evs (Name p, Ref p) = None"
      and "detail p gc = Some lp"
      and "pl_CreatedAt lp = Some t"
  shows "\<exists>m'. taskOnce p gc now m = Inr m' \<and>
           runCount m' (Name p, Ref p) = Some 0 \<and>
           (runCount m (Name p, Ref p) = None \<or> runCount m (Name p, Ref p) = Some 0)"
proof -
  from taskOnce_returns [OF assms(3,4)] obtain m' where t: "taskOnce p gc now m = Inr m'"
    by blast
  have before: "runCount m (Name p, Ref p) = None \<or> runCount m (Name p, Ref p) = Some 0"
    using run_polls_runCount [OF assms(1), of "(Name p, Ref p)"]
    by (simp add: metrics_init_def split: if_splits)
  then have "runCount m' (Name p, Ref p) = Some 0"
    using taskOnce_runCount [OF t, of "(Name p, Ref p)"] by auto
  with t before show ?thesis by blast
qed

theorem first_snapshot_no_increment_witness:
  "run_polls metrics_init [(proj_a, gitlab_with [] None, T1)]
     = Inr (metrics_init\<lparr>runCount := [(''proj-a'', ''main'') \<mapsto> 0]\<rparr>) \<and>
   last_seen [(proj_a, gitlab_with [] None, T1)] (Name proj_a, Ref proj_a) = None \<and>
   detail proj_a (seen101 ''running'' 0) = Some (pipeline101 ''running'' 0) \<and>
   pl_CreatedAt (pipeline101 ''running'' 0) = Some T0 \<and>
   (\<exists>m'. taskOnce proj_a (seen101 ''running'' 0) T2
            (metrics_init\<lparr>runCount := [(''proj-a'', ''main'') \<mapsto> 0]\<rparr>) = Inr m' \<and>
         runCount m' (Name proj_a, Ref proj_a) = Some 0)"
proof -
  have h1: "run_polls metrics_init [(proj_a, gitlab_with [] None, T1)]
     = Inr (metrics_init\<lparr>runCount := [(''proj-a'', ''main'') \<mapsto> 0]\<rparr>)"
    by (simp add: model_defs example_defs)
  have h2: "last_seen [(proj_a, gitlab_with [] None, T1)] (Name proj_a, Ref proj_a) = None"
    by (simp add: detail_def newest_def example_defs)
  have h3: "detail proj_a (seen101 ''running'' 0) = Some (pipeline101 ''running'' 0)"
    by (simp add: detail_def newest_def example_defs)
  have h4: "pl_CreatedAt (pipeline101 ''running'' 0) = Some T0"
    by (simp add: pipeline101_def)
  from first_snapshot_no_increment [OF h1 h2 h3 h4, of T2] h1 h2 h3 h4
  show ?thesis by blast
qed

text \<open>
  C1. A second, distinct snapshot of a target already seen should add 1 to
  \<open>run_count\<close>. In main.go it does not: \<^verbatim>\<open>lastPipeline\<close> is nil at every call, so
  the increment is never reached. The target \<^verbatim>\<open>(proj-a, main)\<close> is polled twice;
  the first poll sees pipeline 101 running, the second sees it with status success, and
  the counter reads 0 afterwards.
\<close>

theorem changed_snapshot_run_count_stays:
  "\<not> isl (run_polls metrics_init
            [(proj_a, seen101 ''running'' 0, T1), (proj_a, seen101 ''success'' 42, T2)]) \<and>
   runCount (projr (run_polls metrics_init
            [(proj_a, seen101 ''running'' 0, T1), (proj_a, seen101 ''success'' 42, T2)]))
     (''proj-a'', ''main'') = Some 0"
  by (simp add: model_defs example_defs)

text \<open>
  C3. A poll that sees the id and status of the previous poll should leave
  \<open>last_run_duration\<close> alone and refresh \<open>time_since_last_run\<close> from the stored
  snapshot, without fetching the detail again. In main.go every poll fetches the detail and
  writes its duration: two polls see pipeline 101 with status failed, the detail reports a
  duration of 100 at the first and of 150 at the second, and the gauge goes from 100 to
  150. The counter is not incremented.
\<close>

theorem unchanged_poll_rewrites_duration:
  "newest proj_a (seen101 ''failed'' 150) = newest proj_a (seen101 ''failed'' 100) \<and>
   \<not> isl (run_polls metrics_init [(proj_a, seen101 ''failed'' 100, T1)]) \<and>
   lastRunDuration (projr (run_polls metrics_init [(proj_a, seen101 ''failed'' 100, T1)]))
     (''proj-a'', ''main'') = Some 100 \<and>
   \<not> isl (run_polls metrics_init
            [(proj_a, seen101 ''failed'' 100, T1), (proj_a, seen101 ''failed'' 150, T2)]) \<and>
   lastRunDuration (projr (run_polls metrics_init
            [(proj_a, seen101 ''failed'' 100, T1), (proj_a, seen101 ''failed'' 150, T2)]))
     (''proj-a'', ''main'') = Some 150 \<and>
   runCount (projr (run_polls metrics_init
            [(proj_a, seen101 ''failed'' 100, T1), (proj_a, seen101 ''failed'' 150, T2)]))
     (''proj-a'', ''main'') = Some 0"
  by (simp add: model_defs example_defs newest_def)

section \<open>Targets without a pipeline\<close>

text \<open>
  C2. For a target for which no pipeline has ever been observed, the three gauge families
  \<open>time_since_last_run\<close>, \<open>last_run_duration\<close> and \<open>status\<close> hold no series for
  its key. \<open>run_count\<close> is different: \<^verbatim>\<open>taskOnce\<close> asks for the counter of the key
  before it lists the pipelines, so the series exists, with value 0, as soon as the target
  has been polled once, and does not exist before.
\<close>

theorem never_observed_series:
  assumes "run_polls metrics_init evs = Inr m"
      and "\<forall>e \<in> set evs. (Name (fst e), Ref (fst e)) = (n, r)
             \<longrightarrow> newest (fst e) (fst (snd e)) = None"
  shows "timeSinceLastRun m (n, r) = None \<and>
         lastRunDuration m (n, r) = None \<and>
         (\<forall>s. status m (n, r, s) = None) \<and>
         runCount m (n, r) = (if polled evs (n, r) then Some 0 else None)"
proof -
  have ls: "last_seen evs (n, r) = None"
    using assms(2) by (rule never_seen_last_seen)
  have "timeSinceLastRun m (n, r) = None"
    using run_polls_timeSinceLastRun [OF assms(1), of "(n, r)"] ls
    by (simp add: metrics_init_def)
  moreover have "lastRunDuration m (n, r) = None"
    using run_polls_lastRunDuration [OF assms(1), of "(n, r)"] ls
    by (simp add: metrics_init_def)
  moreover have "status m (n, r, s) = None" for s
    using run_polls_status [OF assms(1), of n r s] ls
    by (simp add: metrics_init_def)
  moreover have "runCount m (n, r) = (if polled evs (n, r) then Some 0 else None)"
    using run_polls_runCount [OF assms(1), of "(n, r)"]
    by (simp add: metrics_init_def)
  ultimately show ?thesis by blast
qed

theorem never_observed_series_witness:
  "run_polls metrics_init [(proj_a, gitlab_with [] None, T1), (proj_a, gitlab_with [] None, T2)]
     = Inr (metrics_init\<lparr>runCount := [(''proj-a'', ''main'') \<mapsto> 0]\<rparr>) \<and>
   newest proj_a (gitlab_with [] None) = None \<and>
   polled [(proj_a, gitlab_with [] None, T1), (proj_a, gitlab_with [] None, T2)]
     (''proj-a'', ''main'') \<and>
   timeSinceLastRun (metrics_init\<lparr>runCount := [(''proj-a'', ''main'') \<mapsto> 0]\<rparr>)
     (''proj-a'', ''main'') = None \<and>
   lastRunDuration (metrics_init\<lparr>runCount := [(''proj-a'', ''main'') \<mapsto> 0]\<rparr>)
     (''proj-a'', ''main'') = None \<and>
   status (metrics_init\<lparr>runCount := [(''proj-a'', ''main'') \<mapsto> 0]\<rparr>)
     (''proj-a'', ''main'', ''success'') = None \<and>
   runCount (metrics_init\<lparr>runCount := [(''proj-a'', ''main'') \<mapsto> 0]\<rparr>)
     (''proj-a'', ''main'') = Some 0"
proof -
  have h1: "run_polls metrics_init
              [(proj_a, gitlab_with [] None, T1), (proj_a, gitlab_with [] None, T2)]
            = Inr (metrics_init\<lparr>runCount := [(''proj-a'', ''main'') \<mapsto> 0]\<rparr>)"
    by (simp add: model_defs example_defs)
  have n: "newest proj_a (gitlab_with [] None) = None"
    by (simp add: newest_def example_defs)
  have h2: "\<forall>e \<in> set [(proj_a, gitlab_with [] None, T1), (proj_a, gitlab_with [] None, T2)].
              (Name (fst e), Ref (fst e)) = (''proj-a'', ''main'')
                \<longrightarrow> newest (fst e) (fst (snd e)) = None"
    using n by simp
  have p: "polled [(proj_a, gitlab_with [] None, T1), (proj_a, gitlab_with [] None, T2)]
             (''proj-a'', ''main'')"
    by (simp add: polled_def proj_a_def)
  from never_observed_series [OF h1 h2] h1 n p show ?thesis by simp
qed

text \<open>
  The registry after one poll of a target whose pipeline list is empty: no pipeline was
  observed, and the key has a \<open>run_count\<close> series.
\<close>

theorem never_observed_run_count_exists:
  "newest proj_a (gitlab_with [] None) = None \<and>
   \<not> isl (run_polls metrics_init [(proj_a, gitlab_with [] None, T1)]) \<and>
   runCount (projr (run_polls metrics_init [(proj_a, gitlab_with [] None, T1)]))
     (''proj-a'', ''main'') \<noteq> None"
  by (simp add: model_defs example_defs newest_def)

text \<open>
  C6. When the pipeline list of a target is empty, the poll returns normally. It writes no
  gauge, and it changes no value of \<open>run_count\<close>; its one effect on the registry is
  that the \<open>run_count\<close> series of the key is created, with value 0, when it did not
  exist.
\<close>

theorem empty_list_poll:
  assumes "GetProject gc (Name p) = Inr gp"
      and "ListProjectPipelines gc (gp_ID gp) (Ref p) = Inr []"
  shows "\<exists>m'. taskOnce p gc now m = Inr m' \<and>
           timeSinceLastRun m' = timeSinceLastRun m \<and>
           lastRunDuration m' = lastRunDuration m \<and>
           status m' = status m \<and>
           (\<forall>k. runCount m' k =
                  (if k = (Name p, Ref p) \<and> runCount m k = None then Some 0
                   else runCount m k))"
  using assms
  by (auto simp: taskOnce_def getProject_def WithLabelValues_def split: option.splits)

theorem empty_list_poll_witness:
  "GetProject (gitlab_with [] None) (Name proj_a) = Inr gp_a \<and>
   ListProjectPipelines (gitlab_with [] None) (gp_ID gp_a) (Ref proj_a) = Inr [] \<and>
   (\<exists>m'. taskOnce proj_a (gitlab_with [] None) T1 metrics_init = Inr m' \<and>
         status m' = status metrics_init \<and>
         runCount m' (''proj-a'', ''main'') = Some 0 \<and>
         runCount m' (''group/proj-b'', ''main'') = None)"
proof -
  have h1: "GetProject (gitlab_with [] None) (Name proj_a) = Inr gp_a"
    by (simp add: example_defs)
  have h2: "ListProjectPipelines (gitlab_with [] None) (gp_ID gp_a) (Ref proj_a) = Inr []"
    by (simp add: example_defs)
  from empty_list_poll [OF h1 h2, of T1 metrics_init] obtain m' where
    m': "taskOnce proj_a (gitlab_with [] None) T1 metrics_init = Inr m'"
        "status m' = status metrics_init"
        "\<forall>k. runCount m' k =
                (if k = (Name proj_a, Ref proj_a) \<and> runCount metrics_init k = None then Some 0
                 else runCount metrics_init k)"
    by blast
  from m'(3) have "runCount m' (''proj-a'', ''main'') = Some 0"
    and "runCount m' (''group/proj-b'', ''main'') = None"
    by (simp_all add: proj_a_def metrics_init_def)
  with h1 h2 m'(1,2) show ?thesis by blast
qed

text \<open>
  A poll with an empty pipeline list is not a no-operation on the empty registry: the
  counter series of the key is absent before it and present after it.
\<close>

theorem empty_list_poll_changes_registry:
  "ListProjectPipelines (gitlab_with [] None) (gp_ID gp_a) (Ref proj_a) = Inr [] \<and>
   runCount metrics_init (''proj-a'', ''main'') = None \<and>
   \<not> isl (taskOnce proj_a (gitlab_with [] None) T1 metrics_init) \<and>
   runCount (projr (taskOnce proj_a (gitlab_with [] None) T1 metrics_init))
     (''proj-a'', ''main'') = Some 0"
  by (simp add: model_defs example_defs)

section \<open>The status gauges\<close>




section \<open>Elapsed time\<close>



section \<open>Failures\<close>



text \<open>
  C10. \<^verbatim>\<open>taskOnce\<close> keeps neither the error of \<^verbatim>\<open>GetPipeline\<close> nor a test of
  its result and dereferences the result and its \<^verbatim>\<open>CreatedAt\<close>. Once the project and
  a non-empty pipeline list have been fetched, the poll returns exactly when the detail
  fetch gives a pipeline with a \<^verbatim>\<open>CreatedAt\<close>; in every other case it ends in a nil
  dereference, and nothing in the function keeps that case from being reached.
\<close>

theorem detail_dereference_unguarded:
  assumes "GetProject gc (Name p) = Inr gp"
      and "ListProjectPipelines gc (gp_ID gp) (Ref p) = Inr (p0 # rest)"
  shows "((\<exists>m'. taskOnce p gc now m = Inr m') \<longleftrightarrow>
            (\<exists>lp t. GetPipeline gc (gp_ID gp) (pi_ID p0) = Some lp \<and> pl_CreatedAt lp = Some t)) \<and>
         (taskOnce p gc now m = Inl Panic_nil_dereference \<longleftrightarrow>
            GetPipeline gc (gp_ID gp) (pi_ID p0) = None \<or>
            (\<exists>lp. GetPipeline gc (gp_ID gp) (pi_ID p0) = Some lp \<and> pl_CreatedAt lp = None))"
  using assms
  by (auto simp: taskOnce_def getProject_def refresh_def changed_def set_timeSinceLastRun_def
      Let_def split: option.splits)

theorem detail_dereference_unguarded_witness:
  "GetProject (gitlab_with [\<lparr>pi_ID = 101, pi_Status = ''running''\<rparr>] None) (Name proj_a) = Inr gp_a \<and>
   ListProjectPipelines (gitlab_with [\<lparr>pi_ID = 101, pi_Status = ''running''\<rparr>] None)
     (gp_ID gp_a) (Ref proj_a) = Inr [\<lparr>pi_ID = 101, pi_Status = ''running''\<rparr>] \<and>
   GetPipeline (gitlab_with [\<lparr>pi_ID = 101, pi_Status = ''running''\<rparr>] None) (gp_ID gp_a) 101 = None \<and>
   taskOnce proj_a (gitlab_with [\<lparr>pi_ID = 101, pi_Status = ''running''\<rparr>] None) T1 metrics_init
     = Inl Panic_nil_dereference"
proof -
  let ?gc = "gitlab_with [\<lparr>pi_ID = 101, pi_Status = ''running''\<rparr>] None"
  have h1: "GetProject ?gc (Name proj_a) = Inr gp_a"
    by (simp add: example_defs)
  have h2: "ListProjectPipelines ?gc (gp_ID gp_a) (Ref proj_a)
              = Inr (\<lparr>pi_ID = 101, pi_Status = ''running''\<rparr> # [])"
    by (simp add: example_defs)
  have h3: "GetPipeline ?gc (gp_ID gp_a) (pi_ID \<lparr>pi_ID = 101, pi_Status = ''running''\<rparr>) = None"
    by (simp add: example_defs)
  from detail_dereference_unguarded [OF h1 h2, of T1 metrics_init] h3
  have "taskOnce proj_a ?gc T1 metrics_init = Inl Panic_nil_dereference"
    by blast
  with h1 h2 h3 show ?thesis by simp
qed

section \<open>Wildcard entries\<close>

text \<open>
  C5. For a configured entry named \<^verbatim>\<open>*\<close> with ref \<open>R\<close>, when the ownership query
  returns N projects the entry stands for exactly N targets, the i-th being the i-th
  project's path paired with \<open>R\<close>, and the scheduler runs one poll for each of them; an
  entry with any other name stands for itself. A poll of one target leaves the series of
  every other key, in all four families, as they were.
\<close>

theorem wildcard_expansion:
  "(Name p = ''*'' \<longrightarrow> ListProjects gc = Inr projects \<longrightarrow>
      (\<exists>ts. entry_targets gc p = Inr ts \<and>
            length ts = length projects \<and>
            (\<forall>i < length projects.
               ts ! i = \<lparr>Name = gp_PathWithNamespace (projects ! i), Ref = Ref p\<rparr>) \<and>
            task_range [p] gc now m = run_polls m (map (\<lambda>t. (t, gc, now)) ts))) \<and>
   (Name p \<noteq> ''*'' \<longrightarrow>
      entry_targets gc p = Inr [p] \<and> task_range [p] gc now m = taskOnce p gc now m) \<and>
   (taskOnce q gc' now' m = Inr m' \<longrightarrow> (n, r) \<noteq> (Name q, Ref q) \<longrightarrow>
      timeSinceLastRun m' (n, r) = timeSinceLastRun m (n, r) \<and>
      lastRunDuration m' (n, r) = lastRunDuration m (n, r) \<and>
      runCount m' (n, r) = runCount m (n, r) \<and>
      (\<forall>s. status m' (n, r, s) = status m (n, r, s)))"
proof -
  have a: "\<exists>ts. entry_targets gc p = Inr ts \<and>
            length ts = length projects \<and>
            (\<forall>i < length projects.
               ts ! i = \<lparr>Name = gp_PathWithNamespace (projects ! i), Ref = Ref p\<rparr>) \<and>
            task_range [p] gc now m = run_polls m (map (\<lambda>t. (t, gc, now)) ts)"
    if "Name p = ''*''" "ListProjects gc = Inr projects"
    using that by (simp add: entry_targets_def split: sum.splits)
  have b: "entry_targets gc p = Inr [p] \<and> task_range [p] gc now m = taskOnce p gc now m"
    if "Name p \<noteq> ''*''"
    using that by (simp add: entry_targets_def split: sum.splits)
  have c: "timeSinceLastRun m' (n, r) = timeSinceLastRun m (n, r) \<and>
      lastRunDuration m' (n, r) = lastRunDuration m (n, r) \<and>
      runCount m' (n, r) = runCount m (n, r) \<and>
      (\<forall>s. status m' (n, r, s) = status m (n, r, s))"
    if t: "taskOnce q gc' now' m = Inr m'" and k: "(n, r) \<noteq> (Name q, Ref q)"
  proof -
    have "timeSinceLastRun m' (n, r) = timeSinceLastRun m (n, r)"
      using taskOnce_timeSinceLastRun [OF t] k by auto
    moreover have "lastRunDuration m' (n, r) = lastRunDuration m (n, r)"
      using taskOnce_lastRunDuration [OF t, of "(n, r)"] k by auto
    moreover have "runCount m' (n, r) = runCount m (n, r)"
      using taskOnce_runCount [OF t, of "(n, r)"] k by auto
    moreover have "status m' (n, r, s) = status m (n, r, s)" for s
      using taskOnce_status [OF t, of n r s] k by auto
    ultimately show ?thesis by blast
  qed
  from a b c show ?thesis by blast
qed

theorem wildcard_expansion_witness:
  "Name \<lparr>Name = ''*'', Ref = ''dev''\<rparr> = ''*'' \<and>
   ListProjects (gitlab_with [] None) = Inr [gp_a, gp_b] \<and>
   entry_targets (gitlab_with [] None) \<lparr>Name = ''*'', Ref = ''dev''\<rparr>
     = Inr [\<lparr>Name = ''proj-a'', Ref = ''dev''\<rparr>, \<lparr>Name = ''group/proj-b'', Ref = ''dev''\<rparr>] \<and>
   Name proj_a \<noteq> ''*'' \<and>
   entry_targets (gitlab_with [] None) proj_a = Inr [proj_a] \<and>
   \<not> isl (taskOnce proj_a (seen101 ''success'' 42) T2 metrics_init) \<and>
   (''group/proj-b'', ''main'') \<noteq> (Name proj_a, Ref proj_a) \<and>
   runCount (projr (taskOnce proj_a (seen101 ''success'' 42) T2 metrics_init))
     (''group/proj-b'', ''main'') = None \<and>
   status (projr (taskOnce proj_a (seen101 ''success'' 42) T2 metrics_init))
     (''group/proj-b'', ''main'', ''success'') = None"
proof -
  let ?w = "\<lparr>Name = ''*'', Ref = ''dev''\<rparr>"
  let ?r = "taskOnce proj_a (seen101 ''success'' 42) T2 metrics_init"
  have h1: "Name ?w = ''*''" by simp
  have h2: "ListProjects (gitlab_with [] None) = Inr [gp_a, gp_b]"
    by (simp add: gitlab_with_def)
  have h3: "Name proj_a \<noteq> ''*''" by (simp add: proj_a_def)
  have nr: "\<not> isl ?r"
    by (simp add: model_defs example_defs)
  then have h4: "?r = Inr (projr ?r)"
    by (cases ?r) simp_all
  have h5: "(''group/proj-b'', ''main'') \<noteq> (Name proj_a, Ref proj_a)"
    by (simp add: proj_a_def)
  from wildcard_expansion [of ?w "gitlab_with [] None" "[gp_a, gp_b]" T1 metrics_init
      proj_a "seen101 ''success'' 42" T2 "projr ?r" "''group/proj-b''" "''main''"] h1 h2 h4 h5
  obtain ts where
    ts: "entry_targets (gitlab_with [] None) ?w = Inr ts" "length ts = 2"
        "\<forall>i < 2. ts ! i = \<lparr>Name = gp_PathWithNamespace ([gp_a, gp_b] ! i), Ref = ''dev''\<rparr>"
    and fr: "runCount (projr ?r) (''group/proj-b'', ''main'')
               = runCount metrics_init (''group/proj-b'', ''main'')"
            "status (projr ?r) (''group/proj-b'', ''main'', ''success'')
               = status metrics_init (''group/proj-b'', ''main'', ''success'')"
    by auto
  from ts(3) have "ts ! 0 = \<lparr>Name = ''proj-a'', Ref = ''dev''\<rparr>"
    and "ts ! 1 = \<lparr>Name = ''group/proj-b'', Ref = ''dev''\<rparr>"
    by (simp_all add: gp_a_def gp_b_def)
  with ts(2) have e1: "ts = [\<lparr>Name = ''proj-a'', Ref = ''dev''\<rparr>, \<lparr>Name = ''group/proj-b'', Ref = ''dev''\<rparr>]"
    by (cases ts; cases "tl ts") auto
  from wildcard_expansion [of proj_a "gitlab_with [] None" "[]" T1 metrics_init
      proj_a "seen101 ''success'' 42" T2 "projr ?r" "''group/proj-b''" "''main''"] h3
  have e2: "entry_targets (gitlab_with [] None) proj_a = Inr [proj_a]"
    by blast
  from fr have "runCount (projr ?r) (''group/proj-b'', ''main'') = None"
    and "status (projr ?r) (''group/proj-b'', ''main'', ''success'') = None"
    by (simp_all add: metrics_init_def)
  with h1 h2 h3 nr h5 ts(1) e1 e2 show ?thesis by simp
qed

end
